theory Spec2Isabelle
  imports Complex_Main "HOL-Library.AList"
begin

section \<open>Data model\<close>

text \<open>
  The module \<^verbatim>\<open>spatial_image_multiscale.py\<close> builds a multiscale pyramid of a
  labelled array (\<^verbatim>\<open>to_multiscale\<close>) and writes it with OME-NGFF metadata
  (\<^verbatim>\<open>MultiscaleSpatialImage.to_zarr\<close>). The labelled arrays, the tree and the
  store writer come from xarray and datatree; they are modelled here only as far as the
  module uses them. Array cells and coordinate values are real numbers: the rounding of
  machine floats is not modelled.
\<close>

type_synonym label = string

datatype error = ValueError | IndexError | ZeroDivisionError

text \<open>An N-dimensional array as nested lists, the outermost list along the first dimension.\<close>

datatype nd = Cell real | Axis "nd list"

text \<open>A coordinate variable: its values and its attributes (\<^verbatim>\<open>coords[dim].attrs\<close>).\<close>

record coord =
  co_data :: "real list"
  co_attrs :: "(string \<times> string) list"

text \<open>The chunk specifications that the \<^verbatim>\<open>chunks\<close> parameter accepts.\<close>

datatype chunk_size = ChunkNone | ChunkInt int | ChunkTuple "int list"

datatype chunks =
    ChunksInt int
  | ChunksTuple "int list"
  | ChunksTuples "int list list"
  | ChunksMapping "(label \<times> chunk_size) list"

text \<open>
  \<^verbatim>\<open>SpatialImage\<close> (an \<^verbatim>\<open>xarray.DataArray\<close>): its name (a spatial image is named),
  its dimensions with their extents in order (\<^verbatim>\<open>sizes\<close>), its dimension coordinates by
  name, its cells and its chunking.
\<close>

record data_array =
  da_name :: string
  da_sizes :: "(label \<times> nat) list"
  da_coords :: "(label \<times> coord) list"
  da_data :: nd
  da_chunks :: "chunks option"

text \<open>The NGFF metadata document that \<^verbatim>\<open>to_zarr\<close> assembles.\<close>

datatype transformation = Scale "real list" | Translation "real list"

record ngff_dataset =
  ngff_path :: string
  coordinateTransformations :: "transformation list"

record ngff_axis =
  axis_name :: string
  axis_type :: string
  axis_unit :: "string option"

record multiscale =
  ms_version :: string
  ms_name :: string
  ms_axes :: "ngff_axis list"
  ms_datasets :: "ngff_dataset list"

datatype attr = AttrMultiscales "multiscale list" | AttrOther string

text \<open>An \<^verbatim>\<open>xarray.Dataset\<close>: dimensions, coordinates, data variables, attributes.\<close>

record dataset =
  ds_sizes :: "(label \<times> nat) list"
  ds_coords :: "(label \<times> coord) list"
  ds_data_vars :: "(string \<times> data_array) list"
  ds_attrs :: "(string \<times> attr) list"

text \<open>
  The tree: \<^verbatim>\<open>MultiscaleSpatialImage\<close> is a \<^verbatim>\<open>DataTree\<close> root with a name, a
  dataset of its own (whose \<^verbatim>\<open>attrs\<close> receive the metadata) and its children in
  order, each a named node holding one dataset.
\<close>

record node =
  node_name :: string
  node_ds :: dataset

record multiscale_spatial_image =
  msi_name :: string
  msi_ds :: dataset
  msi_children :: "node list"

datatype Method = XARRAY_COARSEN

text \<open>
  An element of \<^verbatim>\<open>scale_factors\<close>: \<^verbatim>\<open>Union[Dict[str, int], int]\<close>, told apart by
  \<^verbatim>\<open>isinstance(scale_factor, int)\<close>.
\<close>

datatype scale_factor = IntFactor int | DictFactor "(label \<times> int) list"

text \<open>Keyword-argument values handed through to the store writer.\<close>

datatype py_value = PyNone | PyStr string | PyDict "(string \<times> py_value) list"

section \<open>The array library, as far as the module uses it\<close>

definition da_dims :: "data_array \<Rightarrow> label list" where
  "da_dims a = map fst (da_sizes a)"

definition ds_dims :: "dataset \<Rightarrow> label list" where
  "ds_dims d = map fst (ds_sizes d)"

text \<open>The extent of a dimension (\<^verbatim>\<open>sizes[dim]\<close>); 0 for a label that is no dimension.\<close>

definition extent :: "(label \<times> nat) list \<Rightarrow> label \<Rightarrow> nat" where
  "extent sizes d = (case map_of sizes d of Some n \<Rightarrow> n | None \<Rightarrow> 0)"

text \<open>
  \<^verbatim>\<open>image.coords[dim]\<close> on a dataset: the coordinate variable of that name, and for
  a dimension without one xarray's default index \<^verbatim>\<open>range(size)\<close>, without attributes.
\<close>

definition coords_getitem :: "dataset \<Rightarrow> label \<Rightarrow> coord" where
  "coords_getitem img dim' =
     (case map_of (ds_coords img) dim' of
        Some c \<Rightarrow> c
      | None \<Rightarrow> \<lparr>co_data = map real [0..<extent (ds_sizes img) dim'], co_attrs = []\<rparr>)"

text \<open>
  \<^verbatim>\<open>DataArray.chunk(chunks)\<close>. The specification is first turned into one entry per
  dimension: an integer stands for every dimension, a tuple is paired with the dimensions
  in order, and a mapping must name dimensions only (xarray raises \<^verbatim>\<open>ValueError\<close>
  for any other key).
\<close>

definition chunks_per_dim :: "chunks \<Rightarrow> label list \<Rightarrow> error + (label \<times> chunk_size) list" where
  "chunks_per_dim c dims =
     (case c of
        ChunksInt n \<Rightarrow> Inr (map (\<lambda>d. (d, ChunkInt n)) dims)
      | ChunksTuple ns \<Rightarrow> Inr (zip dims (map ChunkInt ns))
      | ChunksTuples nss \<Rightarrow> Inr (zip dims (map ChunkTuple nss))
      | ChunksMapping m \<Rightarrow>
          if list_ex (\<lambda>kc. fst kc \<notin> set dims) m then Inl ValueError else Inr m)"

text \<open>
  The entry of one dimension against its extent \<open>e\<close>: \<^verbatim>\<open>None\<close> and \<^verbatim>\<open>-1\<close> stand for the
  whole dimension and a positive integer is a block length; explicit block lengths must
  add up to the extent (\<^verbatim>\<open>ValueError\<close> otherwise). On a dimension that is not empty a
  block length 0 is a division by zero and a negative one other than \<^verbatim>\<open>-1\<close> gives blocks
  that do not add up.
\<close>

fun chunk_size_error :: "nat \<Rightarrow> chunk_size \<Rightarrow> error option" where
  "chunk_size_error e ChunkNone = None"
| "chunk_size_error e (ChunkInt n) =
     (if e = 0 \<or> n = - 1 \<or> 0 < n then None
      else if n = 0 then Some ZeroDivisionError else Some ValueError)"
| "chunk_size_error e (ChunkTuple cs) =
     (if cs \<noteq> [] \<and> sum_list cs = int e then None else Some ValueError)"

fun sizes_error :: "(label \<times> chunk_size) list \<Rightarrow> (label \<times> nat) list \<Rightarrow> error option" where
  "sizes_error m [] = None"
| "sizes_error m (dn # rest) =
     (case (case map_of m (fst dn) of None \<Rightarrow> None | Some cs \<Rightarrow> chunk_size_error (snd dn) cs) of
        Some err \<Rightarrow> Some err
      | None \<Rightarrow> sizes_error m rest)"

definition chunk_error :: "chunks \<Rightarrow> data_array \<Rightarrow> error option" where
  "chunk_error c a =
     (case chunks_per_dim c (da_dims a) of
        Inl err \<Rightarrow> Some err
      | Inr m \<Rightarrow> sizes_error m (da_sizes a))"

text \<open>The array with the new chunking; nothing else changes.\<close>

definition chunked :: "chunks \<Rightarrow> data_array \<Rightarrow> data_array" where
  "chunked c a = a\<lparr>da_chunks := Some c\<rparr>"

definition chunk :: "chunks \<Rightarrow> data_array \<Rightarrow> error + data_array" where
  "chunk c a = (case chunk_error c a of Some err \<Rightarrow> Inl err | None \<Rightarrow> Inr (chunked c a))"

text \<open>
  \<^verbatim>\<open>DataArray.to_dataset(name=...)\<close>: a dataset with the array as its one variable. Its
  variables are the coordinates followed by the array, so its dimensions are listed with
  those of the coordinates first and the remaining dimensions of the array after them. A
  coordinate is a dimension coordinate when its name is a dimension of the array. xarray
  raises \<^verbatim>\<open>ValueError\<close> when the name is the name of one of the coordinates.
\<close>

definition dataset_of :: "string \<Rightarrow> data_array \<Rightarrow> dataset" where
  "dataset_of name a =
     (let cdims = filter (\<lambda>d. d \<in> set (da_dims a)) (map fst (da_coords a))
      in \<lparr>ds_sizes = map (\<lambda>d. (d, extent (da_sizes a) d)) cdims
                     @ filter (\<lambda>dn. fst dn \<notin> set cdims) (da_sizes a),
          ds_coords = da_coords a,
          ds_data_vars = [(name, a\<lparr>da_name := name\<rparr>)], ds_attrs = []\<rparr>)"

definition to_dataset :: "string \<Rightarrow> data_array \<Rightarrow> error + dataset" where
  "to_dataset name a =
     (if name \<in> set (map fst (da_coords a)) then Inl ValueError else Inr (dataset_of name a))"

text \<open>
  The windows of \<^verbatim>\<open>coarsen(boundary="trim", side="right")\<close> along one dimension.
  With \<open>n\<close> entries and window \<open>w\<close>, xarray first drops the excess \<open>n mod w\<close> entries at
  the start (\<^verbatim>\<open>isel({d: slice(excess, None)})\<close> for the side \<^verbatim>\<open>right\<close>) and then cuts
  what is left into consecutive blocks of \<open>w\<close> entries.
\<close>

definition trim :: "nat \<Rightarrow> 'a list \<Rightarrow> 'a list" where
  "trim w xs = drop (length xs mod w) xs"

function blocks :: "nat \<Rightarrow> 'a list \<Rightarrow> 'a list list" where
  "blocks w xs = (if w = 0 \<or> length xs < w then [] else take w xs # blocks w (drop w xs))"
  by pat_completeness auto
termination
  by (relation "measure (\<lambda>(w, xs). length xs)") auto

declare blocks.simps [simp del]

definition mean :: "real list \<Rightarrow> real" where
  "mean xs = sum_list xs / real (length xs)"

text \<open>Cell-wise sum and quotient of equally shaped arrays, and the mean of a block.\<close>

fun nd_add :: "nd \<Rightarrow> nd \<Rightarrow> nd" and nd_adds :: "nd list \<Rightarrow> nd list \<Rightarrow> nd list" where
  "nd_add (Cell a) (Cell b) = Cell (a + b)"
| "nd_add (Axis xs) (Axis ys) = Axis (nd_adds xs ys)"
| "nd_add x _ = x"
| "nd_adds (x # xs) (y # ys) = nd_add x y # nd_adds xs ys"
| "nd_adds _ _ = []"

fun nd_div :: "nd \<Rightarrow> real \<Rightarrow> nd" where
  "nd_div (Cell a) n = Cell (a / n)"
| "nd_div (Axis xs) n = Axis (map (\<lambda>x. nd_div x n) xs)"

fun nd_mean :: "nd list \<Rightarrow> nd" where
  "nd_mean [] = Axis []"
| "nd_mean (x # xs) = nd_div (foldl nd_add x xs) (real (length (x # xs)))"

text \<open>
  Block means of the cells: along every dimension that has a window, the entries are
  trimmed and cut into blocks and each block is replaced by its mean; the other dimensions
  are kept.
\<close>

fun coarsen_nd :: "(label \<Rightarrow> nat option) \<Rightarrow> label list \<Rightarrow> nd \<Rightarrow> nd" where
  "coarsen_nd ws [] x = x"
| "coarsen_nd ws (d # ds) (Cell v) = Cell v"
| "coarsen_nd ws (d # ds) (Axis xs) =
     (let ys = map (coarsen_nd ws ds) xs
      in case ws d of
           None \<Rightarrow> Axis ys
         | Some w \<Rightarrow> Axis (map nd_mean (blocks w (trim w ys))))"

definition window :: "(label \<times> int) list \<Rightarrow> label \<Rightarrow> nat option" where
  "window windows d = map_option nat (map_of windows d)"

text \<open>
  \<^verbatim>\<open>obj.coarsen(dim=windows, boundary="trim", side="right").mean()\<close>. xarray raises
  \<^verbatim>\<open>ValueError\<close> for a window on a label that is no dimension of the array and for a
  window that is not positive. Otherwise a dimension with window \<open>w\<close> and extent \<open>n\<close>
  keeps \<open>n div w\<close> entries, each the mean of one block, in the cells and in the
  coordinate of that dimension (\<open>coarsened\<close>).
\<close>

definition coarsened :: "(label \<times> int) list \<Rightarrow> data_array \<Rightarrow> data_array" where
  "coarsened windows obj =
     obj\<lparr>
       da_sizes := map (\<lambda>dn. (fst dn,
           case window windows (fst dn) of None \<Rightarrow> snd dn | Some w \<Rightarrow> snd dn div w))
         (da_sizes obj),
       da_coords := map (\<lambda>dc. (fst dc,
           case window windows (fst dc) of
             None \<Rightarrow> snd dc
           | Some w \<Rightarrow> (snd dc)\<lparr>co_data := map mean (blocks w (trim w (co_data (snd dc))))\<rparr>))
         (da_coords obj),
       da_data := coarsen_nd (window windows) (da_dims obj) (da_data obj)\<rparr>"

definition bad_windows :: "(label \<times> int) list \<Rightarrow> data_array \<Rightarrow> bool" where
  "bad_windows windows obj =
     (list_ex (\<lambda>dw. fst dw \<notin> set (da_dims obj)) windows \<or> list_ex (\<lambda>dw. snd dw \<le> 0) windows)"

definition coarsen_mean :: "(label \<times> int) list \<Rightarrow> data_array \<Rightarrow> error + data_array" where
  "coarsen_mean windows obj =
     (if bad_windows windows obj then Inl ValueError else Inr (coarsened windows obj))"

section \<open>Strings and paths\<close>

text \<open>Python's \<^verbatim>\<open>str\<close> of a non-negative integer, as the f-strings format level numbers.\<close>

definition digits :: string where
  "digits = ''0123456789''"

fun str_nat :: "nat \<Rightarrow> string" where
  "str_nat n =
     (if n < 10 then [digits ! n] else str_nat (n div 10) @ [digits ! (n mod 10)])"

declare str_nat.simps [simp del]

text \<open>The part of a path after its last separator: the name of the node at that path.\<close>

definition node_name_of_path :: "string \<Rightarrow> string" where
  "node_name_of_path p = rev (takeWhile (\<lambda>c. c \<noteq> CHR ''/'') (rev p))"

definition empty_dataset :: dataset where
  "empty_dataset = \<lparr>ds_sizes = [], ds_coords = [], ds_data_vars = [], ds_attrs = []\<rparr>"

text \<open>
  Modelled from the spec: \<^verbatim>\<open>DataTree.from_dict\<close> of the datatree library, which
  \<^verbatim>\<open>MultiscaleSpatialImage\<close> inherits. It builds a tree with the given root name
  and one child per entry of \<^verbatim>\<open>data_objects\<close>, in the entries' order, each child
  holding the entry's dataset and named by the last component of the entry's path
  (the level index as a string for the paths \<^verbatim>\<open>multiscales/<index>\<close>).
\<close>

definition from_dict :: "string \<Rightarrow> (string \<times> dataset) list \<Rightarrow> multiscale_spatial_image" where
  "from_dict name data_objects =
     \<lparr>msi_name = name,
      msi_ds = empty_dataset,
      msi_children =
        map (\<lambda>pd. \<lparr>node_name = node_name_of_path (fst pd), node_ds = snd pd\<rparr>) data_objects\<rparr>"

section \<open>to_multiscale\<close>

text \<open>\<^verbatim>\<open>_spatial_dims = {"x", "y", "z"}\<close>\<close>

definition spatial_dims :: "label set" where
  "spatial_dims = {''x'', ''y'', ''z''}"

text \<open>
  The default chunks: 64 per dimension when the image has a \<^verbatim>\<open>z\<close> dimension and 256
  otherwise, and 1 along \<^verbatim>\<open>t\<close>.
\<close>

definition default_chunks :: "data_array \<Rightarrow> chunks" where
  "default_chunks img =
     (let c = (if ''z'' \<in> set (da_dims img) then 64 else 256);
          m = map (\<lambda>d. (d, ChunkInt c)) (da_dims img)
      in ChunksMapping
           (if ''t'' \<in> set (da_dims img) then AList.update ''t'' (ChunkInt 1) m else m))"

text \<open>
  The mapping \<^verbatim>\<open>dim\<close> of one transition: an integer factor on every spatial dimension
  of \<^verbatim>\<open>image\<close>, or the given mapping as it is.
\<close>

definition resolve_dim :: "data_array \<Rightarrow> scale_factor \<Rightarrow> (label \<times> int) list" where
  "resolve_dim img scale_factor =
     (case scale_factor of
        IntFactor f \<Rightarrow> map (\<lambda>d. (d, f)) (filter (\<lambda>d. d \<in> spatial_dims) (da_dims img))
      | DictFactor m \<Rightarrow> m)"

text \<open>
  The loop over \<^verbatim>\<open>enumerate(scale_factors)\<close>. The body coarsens \<^verbatim>\<open>current_input\<close>,
  chunks the result and stores its dataset under \<^verbatim>\<open>multiscales/<factor_index+1>\<close>.
  The source assigns \<^verbatim>\<open>current_input = image\<close> before the loop and never assigns it in
  the body, so every iteration receives the same \<^verbatim>\<open>current_input\<close>. An exception of
  \<^verbatim>\<open>coarsen\<close>, \<^verbatim>\<open>chunk\<close> or \<^verbatim>\<open>to_dataset\<close> leaves the loop and the function.
\<close>

fun downscale_loop ::
  "data_array \<Rightarrow> data_array \<Rightarrow> chunks \<Rightarrow> nat \<Rightarrow> scale_factor list \<Rightarrow>
   (string \<times> dataset) list \<Rightarrow> error + (string \<times> dataset) list" where
  "downscale_loop img current_input chunks factor_index [] data_objects = Inr data_objects"
| "downscale_loop img current_input chunks factor_index (scale_factor # rest) data_objects =
     (case coarsen_mean (resolve_dim img scale_factor) current_input of
        Inl e \<Rightarrow> Inl e
      | Inr downscaled \<Rightarrow>
          (case chunk chunks downscaled of
             Inl e \<Rightarrow> Inl e
           | Inr downscaled' \<Rightarrow>
               (case to_dataset (da_name img) downscaled' of
                  Inl e \<Rightarrow> Inl e
                | Inr ds \<Rightarrow>
                    downscale_loop img current_input chunks (factor_index + 1) rest
                      (AList.update (''multiscales/'' @ str_nat (factor_index + 1)) ds
                         data_objects))))"

text \<open>
  \<^verbatim>\<open>to_multiscale\<close>: the chunks (given or default), level 0 from
  \<^verbatim>\<open>image.chunk(chunks).to_dataset(name=image.name)\<close>, the loop, and the tree.
\<close>

definition to_multiscale ::
  "data_array \<Rightarrow> scale_factor list \<Rightarrow> Method option \<Rightarrow> chunks option \<Rightarrow>
   error + multiscale_spatial_image" where
  "to_multiscale img scale_factors method chunks_arg =
     (let chunks = (case chunks_arg of None \<Rightarrow> default_chunks img | Some c \<Rightarrow> c)
      in case chunk chunks img of
           Inl e \<Rightarrow> Inl e
         | Inr chunked_image \<Rightarrow>
             (case to_dataset (da_name img) chunked_image of
                Inl e \<Rightarrow> Inl e
              | Inr ds0 \<Rightarrow>
                  (let data_objects = [(''multiscales/0'', ds0)];
                       current_input = img
                   in case downscale_loop img current_input chunks 0 scale_factors data_objects of
                        Inl e \<Rightarrow> Inl e
                      | Inr data_objects \<Rightarrow> Inr (from_dict ''multiscales'' data_objects))))"

text \<open>The array of a variable at a level of the pyramid, when both exist.\<close>

definition level_array :: "multiscale_spatial_image \<Rightarrow> nat \<Rightarrow> string \<Rightarrow> data_array option" where
  "level_array t k name =
     (if k < length (msi_children t)
      then map_of (ds_data_vars (node_ds (msi_children t ! k))) name
      else None)"

section \<open>MultiscaleSpatialImage.to_zarr\<close>

text \<open>
  The loop over \<^verbatim>\<open>image.dims\<close> that appends one scale and one translation per
  dimension.
\<close>

fun transforms :: "dataset \<Rightarrow> label list \<Rightarrow> real list \<times> real list \<Rightarrow> real list \<times> real list" where
  "transforms img [] acc = acc"
| "transforms img (dim' # dims) (scale_transform, translate_transform) =
     (let c = co_data (coords_getitem img dim')
      in transforms img dims
           (scale_transform @ [if length c > 1 then c ! 1 - c ! 0 else 1],
            translate_transform @ [if length c > 0 then c ! 0 else 0]))"

definition ngff_dataset_of :: "string \<Rightarrow> node \<Rightarrow> ngff_dataset" where
  "ngff_dataset_of name child =
     (let img = node_ds child;
          st = transforms img (ds_dims img) ([], [])
      in \<lparr>ngff_path = node_name child @ ''/'' @ name,
          coordinateTransformations = [Scale (fst st), Translation (snd st)]\<rparr>)"

definition axis_of :: "dataset \<Rightarrow> label \<Rightarrow> ngff_axis" where
  "axis_of img axis =
     (let a = (if axis = ''t'' then \<lparr>axis_name = ''t'', axis_type = ''time'', axis_unit = None\<rparr>
               else if axis = ''c'' then \<lparr>axis_name = ''c'', axis_type = ''channel'', axis_unit = None\<rparr>
               else \<lparr>axis_name = axis, axis_type = ''space'', axis_unit = None\<rparr>)
      in case map_of (co_attrs (coords_getitem img axis)) ''units'' of
           Some u \<Rightarrow> a\<lparr>axis_unit := Some u\<rparr>
         | None \<Rightarrow> a)"

text \<open>The record of one variable name, from all children and the first child's dimensions.\<close>

definition multiscale_of :: "node list \<Rightarrow> node \<Rightarrow> string \<Rightarrow> multiscale" where
  "multiscale_of children child0 name =
     \<lparr>ms_version = ''0.4'',
      ms_name = name,
      ms_axes = map (axis_of (node_ds child0)) (ds_dims (node_ds child0)),
      ms_datasets = map (ngff_dataset_of name) children\<rparr>"

text \<open>
  \<^verbatim>\<open>to_zarr(self, store, mode, encoding, **kwargs)\<close>. The inherited writer
  \<^verbatim>\<open>super().to_zarr\<close> is a parameter; it receives the tree, the store and the keyword
  arguments of the call \<^verbatim>\<open>super().to_zarr(store, **kwargs)\<close>, and returns or raises.
  The result is the tree as the call leaves it, and the writer's outcome.
  \<^verbatim>\<open>self.children[0]\<close> raises \<^verbatim>\<open>IndexError\<close> on a tree without children.
\<close>

definition to_zarr ::
  "(multiscale_spatial_image \<Rightarrow> 's \<Rightarrow> (string \<times> py_value) list \<Rightarrow> error + 'r) \<Rightarrow>
   multiscale_spatial_image \<Rightarrow> 's \<Rightarrow> py_value \<Rightarrow> py_value \<Rightarrow> (string \<times> py_value) list \<Rightarrow>
   multiscale_spatial_image \<times> (error + 'r)" where
  "to_zarr super_to_zarr self store mode encoding kwargs =
     (case msi_children self of
        [] \<Rightarrow> (self, Inl IndexError)
      | child0 # _ \<Rightarrow>
          (let multiscales =
                 map (multiscale_of (msi_children self) child0)
                   (map fst (ds_data_vars (node_ds child0)));
               ngff_metadata = [(''multiscales'', AttrMultiscales multiscales)];
               self' = self\<lparr>msi_ds := (msi_ds self)\<lparr>ds_attrs := ngff_metadata\<rparr>\<rparr>
           in (self', super_to_zarr self' store kwargs)))"

text \<open>A writer that only records the store and the keyword arguments it was called with.\<close>

definition recording_writer ::
  "multiscale_spatial_image \<Rightarrow> 's \<Rightarrow> (string \<times> py_value) list \<Rightarrow>
   error + ('s \<times> (string \<times> py_value) list)" where
  "recording_writer self store kwargs = Inr (store, kwargs)"

text \<open>A writer that always raises.\<close>

definition failing_writer ::
  "multiscale_spatial_image \<Rightarrow> 's \<Rightarrow> (string \<times> py_value) list \<Rightarrow> error + unit" where
  "failing_writer self store kwargs = Inl ValueError"

section \<open>Example inputs\<close>

definition image_x4 :: data_array where
  "image_x4 =
     \<lparr>da_name = ''image'',
      da_sizes = [(''x'', 4)],
      da_coords = [(''x'', \<lparr>co_data = [0, 1, 2, 3], co_attrs = []\<rparr>)],
      da_data = Axis [Cell 1, Cell 2, Cell 3, Cell 4],
      da_chunks = None\<rparr>"

text \<open>The four-cell image coarsened once by 2: two cells, the means of the two blocks.\<close>

definition half_x4 :: data_array where
  "half_x4 =
     \<lparr>da_name = ''image'',
      da_sizes = [(''x'', 2)],
      da_coords = [(''x'', \<lparr>co_data = [1 / 2, 5 / 2], co_attrs = []\<rparr>)],
      da_data = Axis [Cell (3 / 2), Cell (7 / 2)],
      da_chunks = None\<rparr>"

text \<open>An image with a channel dimension and one spatial dimension.\<close>

definition image_cx :: data_array where
  "image_cx =
     \<lparr>da_name = ''image'',
      da_sizes = [(''c'', 2), (''x'', 4)],
      da_coords = [(''x'', \<lparr>co_data = [0, 1, 2, 3], co_attrs = []\<rparr>)],
      da_data = Axis [Axis [Cell 1, Cell 2, Cell 3, Cell 4], Axis [Cell 5, Cell 6, Cell 7, Cell 8]],
      da_chunks = None\<rparr>"

text \<open>An image with a channel dimension only.\<close>

definition image_c2 :: data_array where
  "image_c2 =
     \<lparr>da_name = ''image'',
      da_sizes = [(''c'', 2)],
      da_coords = [],
      da_data = Axis [Cell 1, Cell 2],
      da_chunks = None\<rparr>"

section \<open>Auxiliary definitions for the proofs\<close>

text \<open>The dataset one iteration of the loop stores, when nothing raises.\<close>

definition downscaled_dataset :: "data_array \<Rightarrow> data_array \<Rightarrow> chunks \<Rightarrow> scale_factor \<Rightarrow> dataset" where
  "downscaled_dataset img cur ch sf =
     dataset_of (da_name img) (chunked ch (coarsened (resolve_dim img sf) cur))"

text \<open>The entries the loop adds to \<^verbatim>\<open>data_objects\<close>, one per scale factor, in order.\<close>

fun levels_from ::
  "data_array \<Rightarrow> data_array \<Rightarrow> chunks \<Rightarrow> nat \<Rightarrow> scale_factor list \<Rightarrow> (string \<times> dataset) list" where
  "levels_from img cur ch i [] = []"
| "levels_from img cur ch i (sf # rest) =
     (''multiscales/'' @ str_nat (i + 1), downscaled_dataset img cur ch sf)
       # levels_from img cur ch (i + 1) rest"

text \<open>An array that \<^verbatim>\<open>chunk\<close> and \<^verbatim>\<open>to_dataset\<close> accept, and a scale factor on which
  \<^verbatim>\<open>coarsen\<close> does not raise and whose result they accept.\<close>

definition level_ok :: "data_array \<Rightarrow> chunks \<Rightarrow> data_array \<Rightarrow> bool" where
  "level_ok img ch a = (chunk_error ch a = None \<and> da_name img \<notin> set (map fst (da_coords a)))"

definition valid_factor :: "data_array \<Rightarrow> data_array \<Rightarrow> chunks \<Rightarrow> scale_factor \<Rightarrow> bool" where
  "valid_factor img cur ch sf =
     (\<not> bad_windows (resolve_dim img sf) cur \<and>
      level_ok img ch (coarsened (resolve_dim img sf) cur))"

text \<open>The exception of a call of \<^verbatim>\<open>to_multiscale\<close> that raises.\<close>

definition raised :: "data_array \<Rightarrow> scale_factor list \<Rightarrow> Method option \<Rightarrow> chunks option \<Rightarrow> error" where
  "raised img sfs m c = (case to_multiscale img sfs m c of Inl e \<Rightarrow> e | Inr t \<Rightarrow> ValueError)"

text \<open>
  Chunks that \<^verbatim>\<open>chunk\<close> accepts on every array with the dimensions of the image: the
  default, one positive block length, or a mapping from dimensions of the image to
  positive block lengths.
\<close>

fun plain :: "label list \<Rightarrow> chunks \<Rightarrow> bool" where
  "plain dims (ChunksInt n) = (0 < n)"
| "plain dims (ChunksMapping m) =
     list_all (\<lambda>kc. fst kc \<in> set dims \<and> (case snd kc of ChunkInt n \<Rightarrow> 0 < n | ChunkNone \<Rightarrow> False | ChunkTuple cs \<Rightarrow> False)) m"
| "plain dims (ChunksTuple ns) = False"
| "plain dims (ChunksTuples nss) = False"

definition plain_chunks :: "chunks option \<Rightarrow> data_array \<Rightarrow> bool" where
  "plain_chunks c img = (case c of None \<Rightarrow> True | Some ch \<Rightarrow> plain (da_dims img) ch)"

text \<open>The list \<^verbatim>\<open>multiscales\<close> that \<^verbatim>\<open>to_zarr\<close> assembles from a tree.\<close>

definition ngff_multiscales :: "multiscale_spatial_image \<Rightarrow> multiscale list" where
  "ngff_multiscales self =
     (case msi_children self of
        [] \<Rightarrow> []
      | child0 # _ \<Rightarrow>
          map (multiscale_of (msi_children self) child0)
            (map fst (ds_data_vars (node_ds child0))))"

text \<open>Reading a decimal string back (Python's \<^verbatim>\<open>int(s)\<close>), used to show that \<open>str_nat\<close> is injective.\<close>

definition digit_val :: "char \<Rightarrow> nat" where
  "digit_val c = length (takeWhile (\<lambda>d. d \<noteq> c) digits)"

definition int_of_str :: "string \<Rightarrow> nat" where
  "int_of_str s = foldl (\<lambda>a c. 10 * a + digit_val c) 0 s"

text \<open>A tree with one level and an attribute of its own on the root.\<close>

definition tree_x4 :: multiscale_spatial_image where
  "tree_x4 =
     \<lparr>msi_name = ''multiscales'',
      msi_ds = \<lparr>ds_sizes = [], ds_coords = [], ds_data_vars = [],
                ds_attrs = [(''history'', AttrOther ''acquired'')]\<rparr>,
      msi_children = [\<lparr>node_name = ''0'', node_ds = dataset_of ''image'' image_x4\<rparr>]\<rparr>"

section \<open>Lemmas about strings, the loop and the metadata\<close>

lemma lt10_cases: "n < 10 \<Longrightarrow> n \<in> {0, 1, 2, 3, 4, 5, 6, 7, 8, 9::nat}"
  by auto

lemma digit_val_digit: "n < 10 \<Longrightarrow> digit_val (digits ! n) = n"
  by (drule lt10_cases) (auto simp: digit_val_def digits_def)

lemma digit_in_digits: "n < 10 \<Longrightarrow> digits ! n \<in> set digits"
  by (rule nth_mem) (simp add: digits_def)

lemma int_of_str_snoc: "int_of_str (s @ [c]) = 10 * int_of_str s + digit_val c"
  by (simp add: int_of_str_def)

lemma int_of_str_str_nat: "int_of_str (str_nat n) = n"
proof (induction n rule: str_nat.induct)
  case (1 n)
  show ?case
  proof (cases "n < 10")
    case True
    then show ?thesis
      by (simp add: str_nat.simps[of n] int_of_str_def digit_val_digit)
  next
    case False
    with 1 have "int_of_str (str_nat (n div 10)) = n div 10" by simp
    with False show ?thesis
      by (simp add: str_nat.simps[of n] int_of_str_snoc digit_val_digit)
  qed
qed

lemma str_nat_inj: "str_nat a = str_nat b \<Longrightarrow> a = b"
  by (metis int_of_str_str_nat)

lemma str_nat_digits: "set (str_nat n) \<subseteq> set digits"
proof (induction n rule: str_nat.induct)
  case (1 n)
  show ?case
  proof (cases "n < 10")
    case True
    then show ?thesis by (simp add: str_nat.simps[of n] digit_in_digits)
  next
    case False
    with 1 have "set (str_nat (n div 10)) \<subseteq> set digits" by simp
    with False show ?thesis
      by (simp add: str_nat.simps[of n] digit_in_digits)
  qed
qed

lemma str_nat_no_slash: "CHR ''/'' \<notin> set (str_nat n)"
proof -
  have "CHR ''/'' \<notin> set digits" by (simp add: digits_def)
  with str_nat_digits show ?thesis by blast
qed

lemma node_name_of_key: "node_name_of_path (''multiscales/'' @ str_nat k) = str_nat k"
proof -
  have "takeWhile (\<lambda>c. c \<noteq> CHR ''/'') (rev (str_nat k) @ rev ''multiscales/'') = rev (str_nat k)"
    using str_nat_no_slash[of k] by (subst takeWhile_append2) auto
  then show ?thesis by (simp add: node_name_of_path_def)
qed

lemma update_fresh: "k \<notin> fst ` set al \<Longrightarrow> AList.update k v al = al @ [(k, v)]"
  by (induction al) auto

lemma path_inj: "''multiscales/'' @ str_nat a = ''multiscales/'' @ str_nat b \<Longrightarrow> a = b"
  using str_nat_inj by simp

lemma level_step:
  "level_ok img ch a \<Longrightarrow>
   chunk ch a = Inr (chunked ch a) \<and>
   to_dataset (da_name img) (chunked ch a) = Inr (dataset_of (da_name img) (chunked ch a))"
  by (simp add: level_ok_def chunk_def to_dataset_def chunked_def)

lemma level_step_fail:
  "\<not> level_ok img ch a \<Longrightarrow>
   (\<exists>e. chunk ch a = Inl e) \<or>
   (chunk ch a = Inr (chunked ch a) \<and> (\<exists>e. to_dataset (da_name img) (chunked ch a) = Inl e))"
  by (auto simp: level_ok_def chunk_def to_dataset_def chunked_def split: option.splits)

lemma downscale_loop_eq:
  "fst ` set objs \<subseteq> (\<lambda>k. ''multiscales/'' @ str_nat k) ` {0..i} \<Longrightarrow>
   (list_all (valid_factor img cur ch) sfs \<longrightarrow>
      downscale_loop img cur ch i sfs objs = Inr (objs @ levels_from img cur ch i sfs)) \<and>
   (\<not> list_all (valid_factor img cur ch) sfs \<longrightarrow>
      (\<exists>e. downscale_loop img cur ch i sfs objs = Inl e))"
proof (induction sfs arbitrary: i objs)
  case Nil
  then show ?case by simp
next
  case (Cons sf rest)
  let ?a = "coarsened (resolve_dim img sf) cur"
  show ?case
  proof (cases "valid_factor img cur ch sf")
    case False
    have "\<exists>e. downscale_loop img cur ch i (sf # rest) objs = Inl e"
    proof (cases "bad_windows (resolve_dim img sf) cur")
      case True
      then show ?thesis by (simp add: coarsen_mean_def)
    next
      case ok: False
      with False have "\<not> level_ok img ch ?a" by (simp add: valid_factor_def)
      from level_step_fail[OF this] ok show ?thesis
        by (auto simp: coarsen_mean_def)
    qed
    with False show ?thesis by simp
  next
    case True
    let ?k = "''multiscales/'' @ str_nat (i + 1)"
    let ?v = "dataset_of (da_name img) (chunked ch ?a)"
    have fresh: "?k \<notin> fst ` set objs"
    proof
      assume "?k \<in> fst ` set objs"
      with Cons.prems obtain j where "j \<le> i" and "?k = ''multiscales/'' @ str_nat j"
        by auto
      then show False using str_nat_inj[of "i + 1" j] by simp
    qed
    then have upd: "AList.update ?k ?v objs = objs @ [(?k, ?v)]"
      by (rule update_fresh)
    have "{0..i} \<subseteq> {0..i + 1}" by simp
    then have "(\<lambda>k. ''multiscales/'' @ str_nat k) ` {0..i}
                 \<subseteq> (\<lambda>k. ''multiscales/'' @ str_nat k) ` {0..i + 1}"
      by (rule image_mono)
    with Cons.prems have old: "fst ` set objs \<subseteq> (\<lambda>k. ''multiscales/'' @ str_nat k) ` {0..i + 1}"
      by (rule subset_trans)
    have "?k \<in> (\<lambda>k. ''multiscales/'' @ str_nat k) ` {0..i + 1}"
      by (rule image_eqI[where x = "i + 1"]) simp_all
    with old have sub: "fst ` set (objs @ [(?k, ?v)]) \<subseteq> (\<lambda>k. ''multiscales/'' @ str_nat k) ` {0..i + 1}"
      by simp
    from True have ok: "\<not> bad_windows (resolve_dim img sf) cur" and lok: "level_ok img ch ?a"
      by (simp_all add: valid_factor_def)
    from level_step[OF lok] ok
    have step: "downscale_loop img cur ch i (sf # rest) objs =
        downscale_loop img cur ch (i + 1) rest (AList.update ?k ?v objs)"
      by (simp add: coarsen_mean_def)
    from Cons.IH[OF sub] True show ?thesis
      unfolding step upd by (simp add: downscaled_dataset_def)
  qed
qed

lemma str_nat_0: "str_nat 0 = ''0''"
  by (simp add: str_nat.simps digits_def)

lemma to_multiscale_eq:
  "to_multiscale img sfs m c =
     (let ch = (case c of None \<Rightarrow> default_chunks img | Some c' \<Rightarrow> c')
      in if level_ok img ch img \<and> list_all (valid_factor img img ch) sfs
         then Inr (from_dict ''multiscales''
                (( ''multiscales/0'', dataset_of (da_name img) (chunked ch img))
                   # levels_from img img ch 0 sfs))
         else Inl (raised img sfs m c))"
proof -
  define ch where "ch = (case c of None \<Rightarrow> default_chunks img | Some c' \<Rightarrow> c')"
  let ?objs = "[(''multiscales/0'', dataset_of (da_name img) (chunked ch img))]"
  have "fst ` set ?objs \<subseteq> (\<lambda>k. ''multiscales/'' @ str_nat k) ` {0..0}"
    by (simp add: str_nat_0)
  note loop = downscale_loop_eq[OF this, of img img ch sfs]
  show ?thesis
  proof (cases "level_ok img ch img")
    case lok: True
    from level_step[OF lok]
    have unf: "to_multiscale img sfs m c =
        (case downscale_loop img img ch 0 sfs ?objs of
           Inl e \<Rightarrow> Inl e
         | Inr data_objects \<Rightarrow> Inr (from_dict ''multiscales'' data_objects))"
      by (simp add: to_multiscale_def Let_def ch_def)
    show ?thesis
    proof (cases "list_all (valid_factor img img ch) sfs")
      case True
      with loop lok unf show ?thesis by (simp add: Let_def ch_def)
    next
      case False
      with loop obtain e where "downscale_loop img img ch 0 sfs ?objs = Inl e" by blast
      with unf have "to_multiscale img sfs m c = Inl e" by simp
      then have "to_multiscale img sfs m c = Inl (raised img sfs m c)" by (simp add: raised_def)
      with False show ?thesis by (simp add: Let_def ch_def)
    qed
  next
    case False
    from level_step_fail[OF this] have "\<exists>e. to_multiscale img sfs m c = Inl e"
      by (auto simp: to_multiscale_def Let_def ch_def)
    then have "to_multiscale img sfs m c = Inl (raised img sfs m c)" by (auto simp: raised_def)
    with False show ?thesis by (simp add: Let_def ch_def)
  qed
qed

lemma length_levels_from: "length (levels_from img cur ch i sfs) = length sfs"
  by (induction sfs arbitrary: i) auto

lemma levels_from_nth:
  "k < length sfs \<Longrightarrow>
   levels_from img cur ch i sfs ! k =
     (''multiscales/'' @ str_nat (i + k + 1), downscaled_dataset img cur ch (sfs ! k))"
proof (induction sfs arbitrary: i k)
  case Nil
  then show ?case by simp
next
  case (Cons sf rest)
  then show ?case by (cases k) auto
qed

lemma map_of_const: "map_of (map (\<lambda>d. (d, f)) xs) d = (if d \<in> set xs then Some f else None)"
  by (induction xs) auto

lemma sizes_error_none:
  "(\<And>d cs e. map_of m d = Some cs \<Longrightarrow> chunk_size_error e cs = None) \<Longrightarrow>
   sizes_error m sizes = None"
proof (induction sizes)
  case Nil
  show ?case by simp
next
  case (Cons dn rest)
  have "(case map_of m (fst dn) of None \<Rightarrow> None | Some cs \<Rightarrow> chunk_size_error (snd dn) cs) = None"
    using Cons.prems by (cases "map_of m (fst dn)") auto
  with Cons show ?case by simp
qed

lemma chunk_error_mapping:
  assumes "\<forall>kc \<in> set m. fst kc \<in> set (da_dims a) \<and> (\<exists>n. snd kc = ChunkInt n \<and> 0 < n)"
  shows "chunk_error (ChunksMapping m) a = None"
proof -
  have k: "\<not> list_ex (\<lambda>kc. fst kc \<notin> set (da_dims a)) m"
    using assms by (auto simp: list_ex_iff)
  have "chunk_size_error e cs = None" if "map_of m d = Some cs" for d cs e
  proof -
    from that have "(d, cs) \<in> set m" by (rule map_of_SomeD)
    with assms obtain n where "cs = ChunkInt n" and "0 < n" by force
    then show ?thesis by simp
  qed
  then have "sizes_error m (da_sizes a) = None" by (rule sizes_error_none)
  with k show ?thesis by (simp add: chunk_error_def chunks_per_dim_def)
qed

lemma chunk_error_int:
  assumes "0 < n"
  shows "chunk_error (ChunksInt n) a = None"
proof -
  have "chunk_size_error e cs = None"
    if "map_of (map (\<lambda>d. (d, ChunkInt n)) (da_dims a)) d = Some cs" for d cs e
    using that assms by (auto simp: map_of_const split: if_splits)
  then have "sizes_error (map (\<lambda>d. (d, ChunkInt n)) (da_dims a)) (da_sizes a) = None"
    by (rule sizes_error_none)
  then show ?thesis by (simp add: chunk_error_def chunks_per_dim_def)
qed

lemma update_set: "set (AList.update k v al) \<subseteq> insert (k, v) (set al)"
  by (induction al) auto

lemma default_chunks_mapping:
  "\<exists>m. default_chunks img = ChunksMapping m \<and>
     (\<forall>kc \<in> set m. fst kc \<in> set (da_dims img) \<and> (\<exists>n. snd kc = ChunkInt n \<and> 0 < n))"
proof -
  define k :: int where "k = (if ''z'' \<in> set (da_dims img) then 64 else 256)"
  define m where "m = map (\<lambda>d. (d, ChunkInt k)) (da_dims img)"
  have k: "0 < k" by (simp add: k_def)
  have m: "\<forall>kc \<in> set m. fst kc \<in> set (da_dims img) \<and> (\<exists>n. snd kc = ChunkInt n \<and> 0 < n)"
    using k by (auto simp: m_def)
  show ?thesis
  proof (cases "''t'' \<in> set (da_dims img)")
    case True
    let ?m = "AList.update ''t'' (ChunkInt 1) m"
    have "default_chunks img = ChunksMapping ?m"
      using True by (simp add: default_chunks_def Let_def m_def k_def)
    moreover have "\<forall>kc \<in> set ?m. fst kc \<in> set (da_dims img) \<and> (\<exists>n. snd kc = ChunkInt n \<and> 0 < n)"
    proof
      fix kc assume "kc \<in> set ?m"
      with update_set[of "''t''" "ChunkInt 1" m] have "kc = (''t'', ChunkInt 1) \<or> kc \<in> set m"
        by auto
      with m True show "fst kc \<in> set (da_dims img) \<and> (\<exists>n. snd kc = ChunkInt n \<and> 0 < n)"
        by auto
    qed
    ultimately show ?thesis by blast
  next
    case False
    then have "default_chunks img = ChunksMapping m"
      by (simp add: default_chunks_def Let_def m_def k_def)
    with m show ?thesis by blast
  qed
qed

lemma plain_chunk_error:
  assumes "plain_chunks c img" and "da_dims a = da_dims img"
  shows "chunk_error (case c of None \<Rightarrow> default_chunks img | Some c' \<Rightarrow> c') a = None"
proof (cases c)
  case None
  from default_chunks_mapping[of img] obtain m where
    d: "default_chunks img = ChunksMapping m" and
    m: "\<forall>kc \<in> set m. fst kc \<in> set (da_dims img) \<and> (\<exists>n. snd kc = ChunkInt n \<and> 0 < n)"
    by blast
  from m assms(2) have "chunk_error (ChunksMapping m) a = None"
    by (intro chunk_error_mapping) simp
  with None d show ?thesis by simp
next
  case (Some ch)
  with assms(1) have p: "plain (da_dims img) ch" by (simp add: plain_chunks_def)
  show ?thesis
  proof (cases ch)
    case (ChunksInt n)
    with p Some show ?thesis by (simp add: chunk_error_int)
  next
    case (ChunksMapping m)
    have "fst kc \<in> set (da_dims a) \<and> (\<exists>n. snd kc = ChunkInt n \<and> 0 < n)"
      if "kc \<in> set m" for kc
    proof -
      from p ChunksMapping that
      have "fst kc \<in> set (da_dims img) \<and>
          (case snd kc of ChunkInt n \<Rightarrow> 0 < n | ChunkNone \<Rightarrow> False | ChunkTuple cs \<Rightarrow> False)"
        by (simp add: list_all_iff)
      then show ?thesis using assms(2) by (cases "snd kc") simp_all
    qed
    then have "\<forall>kc \<in> set m. fst kc \<in> set (da_dims a) \<and> (\<exists>n. snd kc = ChunkInt n \<and> 0 < n)"
      by blast
    then have "chunk_error (ChunksMapping m) a = None" by (rule chunk_error_mapping)
    with Some ChunksMapping show ?thesis by simp
  next
    case (ChunksTuple ns)
    with p show ?thesis by simp
  next
    case (ChunksTuples nss)
    with p show ?thesis by simp
  qed
qed

lemma coarsened_dims: "da_dims (coarsened ws a) = da_dims a"
  by (simp add: coarsened_def da_dims_def comp_def)

lemma coarsened_coord_names: "map fst (da_coords (coarsened ws a)) = map fst (da_coords a)"
  by (simp add: coarsened_def comp_def)

lemma plain_level_ok:
  assumes "plain_chunks c img" and "da_name img \<notin> set (map fst (da_coords img))"
    and "da_dims a = da_dims img" and "map fst (da_coords a) = map fst (da_coords img)"
  shows "level_ok img (case c of None \<Rightarrow> default_chunks img | Some c' \<Rightarrow> c') a"
proof -
  have "chunk_error (case c of None \<Rightarrow> default_chunks img | Some c' \<Rightarrow> c') a = None"
    using assms(1,3) by (rule plain_chunk_error)
  moreover have "da_name img \<notin> set (map fst (da_coords a))"
    using assms(2) by (simp only: assms(4) simp_thms)
  ultimately show ?thesis by (simp only: level_ok_def simp_thms)
qed

lemma plain_valid_factor:
  assumes "plain_chunks c img" and "da_name img \<notin> set (map fst (da_coords img))"
    and "\<not> bad_windows (resolve_dim img sf) img"
  shows "valid_factor img img (case c of None \<Rightarrow> default_chunks img | Some c' \<Rightarrow> c') sf"
proof -
  have "level_ok img (case c of None \<Rightarrow> default_chunks img | Some c' \<Rightarrow> c')
      (coarsened (resolve_dim img sf) img)"
    using assms(1,2) by (rule plain_level_ok) (rule coarsened_dims coarsened_coord_names)+
  with assms(3) show ?thesis by (simp only: valid_factor_def simp_thms)
qed

lemma plain_returns:
  assumes "plain_chunks c img" and "da_name img \<notin> set (map fst (da_coords img))"
    and "list_all (\<lambda>sf. \<not> bad_windows (resolve_dim img sf) img) sfs"
  shows "\<exists>t. to_multiscale img sfs m c = Inr t"
proof -
  let ?ch = "case c of None \<Rightarrow> default_chunks img | Some c' \<Rightarrow> c'"
  have "level_ok img ?ch img"
    using assms(1,2) by (rule plain_level_ok) simp_all
  moreover have "list_all (valid_factor img img ?ch) sfs"
    using assms by (simp add: list_all_iff plain_valid_factor)
  ultimately show ?thesis by (simp add: to_multiscale_eq Let_def)
qed

lemma level_ok_x4: "level_ok image_x4 (default_chunks image_x4) image_x4"
proof -
  have "plain_chunks None image_x4" by (simp add: plain_chunks_def)
  moreover have "da_name image_x4 \<notin> set (map fst (da_coords image_x4))"
    by (simp add: image_x4_def)
  ultimately have "level_ok image_x4 (case None of None \<Rightarrow> default_chunks image_x4 | Some c' \<Rightarrow> c') image_x4"
    by (rule plain_level_ok) simp_all
  then show ?thesis by simp
qed

lemma valid_x4_2: "valid_factor image_x4 image_x4 (default_chunks image_x4) (IntFactor 2)"
proof -
  have "plain_chunks None image_x4" by (simp add: plain_chunks_def)
  moreover have "da_name image_x4 \<notin> set (map fst (da_coords image_x4))"
    by (simp add: image_x4_def)
  moreover have "\<not> bad_windows (resolve_dim image_x4 (IntFactor 2)) image_x4"
    by (simp add: bad_windows_def resolve_dim_def image_x4_def da_dims_def spatial_dims_def)
  ultimately have "valid_factor image_x4 image_x4
      (case None of None \<Rightarrow> default_chunks image_x4 | Some c' \<Rightarrow> c') (IntFactor 2)"
    by (rule plain_valid_factor)
  then show ?thesis by simp
qed

lemma transforms_eq:
  "transforms d dims (s, t) =
     (s @ map (\<lambda>x. let c = co_data (coords_getitem d x) in if length c > 1 then c ! 1 - c ! 0 else 1) dims,
      t @ map (\<lambda>x. let c = co_data (coords_getitem d x) in if length c > 0 then c ! 0 else 0) dims)"
  by (induction dims arbitrary: s t) (simp_all add: Let_def)

lemma blocks_2_4: "blocks 2 (trim 2 [a, b, c, d]) = [[a, b], [c, d]]"
  by (simp add: trim_def blocks.simps[of 2 "[a, b, c, d]"] blocks.simps[of 2 "[c, d]"]
      blocks.simps[of 2 "[]"])

lemma blocks_2_2: "blocks 2 (trim 2 [a, b]) = [[a, b]]"
  by (simp add: trim_def blocks.simps[of 2 "[a, b]"] blocks.simps[of 2 "[]"])

lemma resolve_x4: "resolve_dim image_x4 (IntFactor 2) = [(''x'', 2)]"
  by (simp add: resolve_dim_def image_x4_def da_dims_def spatial_dims_def)

lemma coarsened_x4: "coarsened [(''x'', 2)] image_x4 = half_x4"
  by (simp add: coarsened_def image_x4_def half_x4_def window_def da_dims_def blocks_2_4 mean_def)

lemma to_multiscale_x4:
  "to_multiscale image_x4 [IntFactor 2, IntFactor 2] None None =
     Inr (from_dict ''multiscales''
       [(''multiscales/0'', dataset_of ''image'' (chunked (default_chunks image_x4) image_x4)),
        (''multiscales/1'', dataset_of ''image'' (chunked (default_chunks image_x4) half_x4)),
        (''multiscales/2'', dataset_of ''image'' (chunked (default_chunks image_x4) half_x4))])"
proof -
  have n: "da_name image_x4 = ''image''" by (simp add: image_x4_def)
  have s1: "str_nat (Suc 0) = ''1''" by (simp add: str_nat.simps[of "Suc 0"] digits_def)
  have s2: "str_nat 2 = ''2''" by (simp add: str_nat.simps[of 2] digits_def)
  have s2': "str_nat (Suc (Suc 0)) = ''2''" using s2 by (simp add: numeral_2_eq_2)
  show ?thesis
    using valid_x4_2 level_ok_x4
    by (simp add: to_multiscale_eq Let_def downscaled_dataset_def resolve_x4 coarsened_x4 n s1 s2 s2')
qed

lemma valid_cx:
  "level_ok image_cx (default_chunks image_cx) image_cx \<and>
   list_all (valid_factor image_cx image_cx (default_chunks image_cx))
     [IntFactor 2, DictFactor [(''c'', 2)]]"
proof -
  have p: "plain_chunks None image_cx" by (simp add: plain_chunks_def)
  have n: "da_name image_cx \<notin> set (map fst (da_coords image_cx))"
    by (simp add: image_cx_def)
  have b1: "\<not> bad_windows (resolve_dim image_cx (IntFactor 2)) image_cx"
    by (simp add: bad_windows_def resolve_dim_def image_cx_def da_dims_def spatial_dims_def)
  have b2: "\<not> bad_windows (resolve_dim image_cx (DictFactor [(''c'', 2)])) image_cx"
    by (simp add: bad_windows_def resolve_dim_def image_cx_def da_dims_def)
  from p n have "level_ok image_cx (case None of None \<Rightarrow> default_chunks image_cx | Some c' \<Rightarrow> c') image_cx"
    by (rule plain_level_ok) simp_all
  with plain_valid_factor[OF p n b1] plain_valid_factor[OF p n b2] show ?thesis by simp
qed

lemma sizes_cx:
  "da_sizes (coarsened (resolve_dim image_cx (IntFactor 2)) image_cx) = [(''c'', 2), (''x'', 2)] \<and>
   da_sizes (coarsened (resolve_dim image_cx (DictFactor [(''c'', 2)])) image_cx) =
     [(''c'', 1), (''x'', 4)]"
  by (simp add: coarsened_def resolve_dim_def window_def image_cx_def da_dims_def spatial_dims_def)

lemma level_array_succ:
  assumes "to_multiscale img sfs m c = Inr t" and "i < length sfs"
  shows "\<exists>ch. level_array t (i + 1) (da_name img) =
           Some ((chunked ch (coarsened (resolve_dim img (sfs ! i)) img))\<lparr>da_name := da_name img\<rparr>)"
proof -
  let ?ch = "case c of None \<Rightarrow> default_chunks img | Some c' \<Rightarrow> c'"
  from assms(1) have t: "t = from_dict ''multiscales''
      ((''multiscales/0'', dataset_of (da_name img) (chunked ?ch img)) # levels_from img img ?ch 0 sfs)"
    by (simp add: to_multiscale_eq Let_def split: if_splits)
  have "level_array t (i + 1) (da_name img) =
      map_of (ds_data_vars (snd (levels_from img img ?ch 0 sfs ! i))) (da_name img)"
    using assms(2) by (simp add: t from_dict_def level_array_def length_levels_from)
  also have "\<dots> = Some ((chunked ?ch (coarsened (resolve_dim img (sfs ! i)) img))\<lparr>da_name := da_name img\<rparr>)"
    using assms(2) by (simp add: levels_from_nth downscaled_dataset_def dataset_of_def)
  finally show ?thesis by blast
qed

lemma names_levels_from:
  "map (\<lambda>pd. node_name_of_path (fst pd)) (levels_from img cur ch i sfs) =
     map str_nat [i + 1..<i + 1 + length sfs]"
proof (rule nth_equalityI)
  show "length (map (\<lambda>pd. node_name_of_path (fst pd)) (levels_from img cur ch i sfs)) =
      length (map str_nat [i + 1..<i + 1 + length sfs])"
    by (simp add: length_levels_from del: upt_Suc)
next
  fix k
  assume "k < length (map (\<lambda>pd. node_name_of_path (fst pd)) (levels_from img cur ch i sfs))"
  then have k: "k < length sfs"
    by (simp add: length_levels_from)
  have "map (\<lambda>pd. node_name_of_path (fst pd)) (levels_from img cur ch i sfs) ! k =
      node_name_of_path (fst (levels_from img cur ch i sfs ! k))"
    using k by (simp add: length_levels_from)
  also have "\<dots> = node_name_of_path (''multiscales/'' @ str_nat (i + k + 1))"
    using k by (simp only: levels_from_nth fst_conv)
  also have "\<dots> = str_nat (i + k + 1)"
    by (rule node_name_of_key)
  also have "\<dots> = map str_nat [i + 1..<i + 1 + length sfs] ! k"
    using k by (simp del: upt_Suc)
  finally show "map (\<lambda>pd. node_name_of_path (fst pd)) (levels_from img cur ch i sfs) ! k =
      map str_nat [i + 1..<i + 1 + length sfs] ! k" .
qed

lemma children_names:
  assumes "to_multiscale img sfs m c = Inr t"
  shows "map node_name (msi_children t) = map str_nat [0..<length sfs + 1]"
proof -
  let ?ch = "case c of None \<Rightarrow> default_chunks img | Some c' \<Rightarrow> c'"
  from assms have t: "t = from_dict ''multiscales''
      ((''multiscales/0'', dataset_of (da_name img) (chunked ?ch img)) # levels_from img img ?ch 0 sfs)"
    by (simp add: to_multiscale_eq Let_def split: if_splits)
  have z: "node_name_of_path ''multiscales/0'' = str_nat 0"
    using node_name_of_key[of 0] by (simp add: str_nat_0)
  have "map node_name (msi_children t) =
      str_nat 0 # map (\<lambda>pd. node_name_of_path (fst pd)) (levels_from img img ?ch 0 sfs)"
    by (simp add: t from_dict_def z comp_def)
  also have "\<dots> = str_nat 0 # map str_nat [0 + 1..<0 + 1 + length sfs]"
    by (simp only: names_levels_from)
  also have "\<dots> = map str_nat (0 # [0 + 1..<0 + 1 + length sfs])"
    by simp
  also have "0 # [0 + 1..<0 + 1 + length sfs] = [0..<length sfs + 1]"
    by (simp add: upt_conv_Cons del: upt_Suc)
  finally show ?thesis .
qed

lemma coarsen_nd_none: "coarsen_nd (\<lambda>d. None) ds x = x"
proof (induction ds arbitrary: x)
  case Nil
  show ?case by simp
next
  case (Cons d ds)
  show ?case by (cases x) (simp_all add: Cons map_idI)
qed

lemma window_nil: "window [] = (\<lambda>d. None)"
  by (rule ext) (simp add: window_def)

lemma coarsened_nil: "coarsened [] obj = obj"
  by (simp add: coarsened_def window_nil coarsen_nd_none)

lemma resolve_no_spatial:
  "set (da_dims img) \<inter> spatial_dims = {} \<Longrightarrow> resolve_dim img (IntFactor f) = []"
  by (auto simp: resolve_dim_def filter_empty_conv)

lemma levels_from_data:
  "k < length sfs \<Longrightarrow>
     map_of (ds_data_vars (snd (levels_from img cur ch i sfs ! k))) (da_name img) =
       Some ((chunked ch (coarsened (resolve_dim img (sfs ! k)) cur))\<lparr>da_name := da_name img\<rparr>)"
  by (simp add: levels_from_nth downscaled_dataset_def dataset_of_def)

section \<open>Claims about \<^verbatim>\<open>to_multiscale\<close>\<close>

text \<open>C5: a tree that \<^verbatim>\<open>to_multiscale\<close> returns for an empty list of scale factors has exactly
  one level, whose array has the data values, sizes and coordinates of the input image; whatever
  the scale factors are, level 0 of a returned tree has the data values of the input (only the
  chunking and the name of the array may differ); and with an empty list the call does return
  when the name of the image is not the name of one of its coordinates and the chunks are the
  default, a positive block length or a mapping from dimensions to positive block lengths.
  Otherwise \<^verbatim>\<open>chunk\<close> or \<^verbatim>\<open>to_dataset\<close> may raise.\<close>

theorem level0_identity:
  "(\<forall>t. to_multiscale img [] m c = Inr t \<longrightarrow>
      length (msi_children t) = 1 \<and>
      (\<exists>a. level_array t 0 (da_name img) = Some a \<and> da_data a = da_data img \<and>
         da_sizes a = da_sizes img \<and> da_coords a = da_coords img)) \<and>
   (\<forall>t. to_multiscale img sfs m c = Inr t \<longrightarrow>
      (\<exists>a. level_array t 0 (da_name img) = Some a \<and> da_data a = da_data img \<and>
         da_sizes a = da_sizes img \<and> da_coords a = da_coords img)) \<and>
   (da_name img \<notin> set (map fst (da_coords img)) \<and> plain_chunks c img \<longrightarrow>
      (\<exists>t. to_multiscale img [] m c = Inr t))"
proof -
  have a: "\<forall>t. to_multiscale img sfs' m c = Inr t \<longrightarrow>
      (\<exists>a. level_array t 0 (da_name img) = Some a \<and> da_data a = da_data img \<and>
         da_sizes a = da_sizes img \<and> da_coords a = da_coords img)" for sfs'
    by (simp add: to_multiscale_eq Let_def from_dict_def level_array_def dataset_of_def chunked_def)
  have b: "\<forall>t. to_multiscale img [] m c = Inr t \<longrightarrow> length (msi_children t) = 1"
    by (simp add: to_multiscale_eq Let_def from_dict_def)
  have r: "da_name img \<notin> set (map fst (da_coords img)) \<and> plain_chunks c img \<longrightarrow>
      (\<exists>t. to_multiscale img [] m c = Inr t)"
    using plain_returns[of c img "[]" m] by simp
  from a[of "[]"] b have "\<forall>t. to_multiscale img [] m c = Inr t \<longrightarrow>
      length (msi_children t) = 1 \<and>
      (\<exists>a. level_array t 0 (da_name img) = Some a \<and> da_data a = da_data img \<and>
         da_sizes a = da_sizes img \<and> da_coords a = da_coords img)"
    by simp
  with a[of sfs] r show ?thesis by (intro conjI)
qed

text \<open>The statement of C5 at the four-cell image with the default chunks.\<close>

theorem level0_identity_witness:
  "\<exists>t a. to_multiscale image_x4 [] None None = Inr t \<and> length (msi_children t) = 1 \<and>
     level_array t 0 ''image'' = Some a \<and>
     da_data a = Axis [Cell 1, Cell 2, Cell 3, Cell 4]"
proof -
  note th = level0_identity[where img = image_x4 and m = None and c = None and sfs = "[]"]
  have "da_name image_x4 \<notin> set (map fst (da_coords image_x4)) \<and> plain_chunks None image_x4"
    by (simp add: image_x4_def plain_chunks_def)
  with th obtain t where t: "to_multiscale image_x4 [] None None = Inr t"
    by blast
  with th obtain a where n: "length (msi_children t) = 1"
    and a: "level_array t 0 (da_name image_x4) = Some a" and d: "da_data a = da_data image_x4"
    by blast
  from a d have "level_array t 0 ''image'' = Some a \<and> da_data a = Axis [Cell 1, Cell 2, Cell 3, Cell 4]"
    by (simp add: image_x4_def)
  with n show ?thesis
    by (intro exI[of _ t] exI[of _ a]) (simp add: t)
qed

text \<open>C4: a tree returned for \<open>N\<close> scale factors has exactly \<open>N + 1\<close> children, level 0 included; and
  the call does return a tree when the name of the image is not the name of one of its
  coordinates, the chunks are the default, a positive block length or a mapping from dimensions
  to positive block lengths, and every scale factor gives windows that are positive and on
  dimensions of the image. Otherwise \<^verbatim>\<open>coarsen\<close>, \<^verbatim>\<open>chunk\<close> or \<^verbatim>\<open>to_dataset\<close> may raise.\<close>

theorem level_count:
  "(\<forall>t. to_multiscale img sfs m c = Inr t \<longrightarrow> length (msi_children t) = length sfs + 1) \<and>
   (da_name img \<notin> set (map fst (da_coords img)) \<and> plain_chunks c img \<and>
    list_all (\<lambda>sf. \<not> bad_windows (resolve_dim img sf) img) sfs \<longrightarrow>
      (\<exists>t. to_multiscale img sfs m c = Inr t))"
proof -
  have "\<forall>t. to_multiscale img sfs m c = Inr t \<longrightarrow> length (msi_children t) = length sfs + 1"
    by (simp add: to_multiscale_eq Let_def from_dict_def length_levels_from)
  moreover have "da_name img \<notin> set (map fst (da_coords img)) \<and> plain_chunks c img \<and>
    list_all (\<lambda>sf. \<not> bad_windows (resolve_dim img sf) img) sfs \<longrightarrow>
      (\<exists>t. to_multiscale img sfs m c = Inr t)"
    using plain_returns[of c img sfs m] by simp
  ultimately show ?thesis by (intro conjI)
qed

text \<open>The statement of C4 at the four-cell image with two halvings: three levels.\<close>

theorem level_count_witness:
  "\<exists>t. to_multiscale image_x4 [IntFactor 2, IntFactor 2] None None = Inr t \<and>
     length (msi_children t) = 3"
proof -
  note th = level_count[where img = image_x4 and sfs = "[IntFactor 2, IntFactor 2]"
      and m = None and c = None]
  have "da_name image_x4 \<notin> set (map fst (da_coords image_x4)) \<and> plain_chunks None image_x4 \<and>
    list_all (\<lambda>sf. \<not> bad_windows (resolve_dim image_x4 sf) image_x4) [IntFactor 2, IntFactor 2]"
    by (simp add: image_x4_def plain_chunks_def bad_windows_def resolve_dim_def da_dims_def
        spatial_dims_def)
  with th obtain t where t: "to_multiscale image_x4 [IntFactor 2, IntFactor 2] None None = Inr t"
    by blast
  with th have "length (msi_children t) = length [IntFactor 2, IntFactor 2] + 1"
    by blast
  with t show ?thesis by simp
qed

text \<open>C1: the claim is that level \<open>k + 1\<close> is one aggregation step applied to level \<open>k\<close>. The loop
  never assigns \<^verbatim>\<open>current_input\<close>, so every level is one aggregation step applied to the
  input image. On the four-cell image with factors 2 and 2, level 1 holds the two block means
  3/2 and 7/2; one more step on level 1 would give the single cell 5/2; level 2 of the returned
  tree holds 3/2 and 7/2 again, the image coarsened once.\<close>

theorem level2_coarsened_from_input:
  "\<exists>t a1 a2 b. to_multiscale image_x4 [IntFactor 2, IntFactor 2] None None = Inr t \<and>
     level_array t 1 ''image'' = Some a1 \<and> level_array t 2 ''image'' = Some a2 \<and>
     coarsen_mean (resolve_dim image_x4 (IntFactor 2)) a1 = Inr b \<and>
     da_data a1 = Axis [Cell (3 / 2), Cell (7 / 2)] \<and>
     da_data b = Axis [Cell (5 / 2)] \<and>
     da_data a2 = Axis [Cell (3 / 2), Cell (7 / 2)] \<and>
     da_data a2 = da_data (coarsened (resolve_dim image_x4 (IntFactor 2)) image_x4)"
  apply (simp add: to_multiscale_x4 from_dict_def level_array_def dataset_of_def chunked_def resolve_x4 coarsened_x4)
  apply (simp add: coarsen_mean_def bad_windows_def da_dims_def half_x4_def coarsened_def window_def blocks_2_2)
  done

text \<open>C3: the claim is that the extent of an axis at level \<open>i + 1\<close> is the extent at level \<open>i\<close>
  divided by the factor, rounded down. On the four-cell image with factors 2 and 2 the extents
  of \<^verbatim>\<open>x\<close> are 4, 2 and 2: the extent at level 2 is the extent of the input divided by 2, where
  the extent at level 1 divided by 2 is 1.\<close>

theorem level2_extent_from_input:
  "\<exists>t a0 a1 a2. to_multiscale image_x4 [IntFactor 2, IntFactor 2] None None = Inr t \<and>
     level_array t 0 ''image'' = Some a0 \<and> level_array t 1 ''image'' = Some a1 \<and>
     level_array t 2 ''image'' = Some a2 \<and>
     extent (da_sizes a0) ''x'' = 4 \<and> extent (da_sizes a1) ''x'' = 2 \<and>
     extent (da_sizes a2) ''x'' = 2 \<and> extent (da_sizes a1) ''x'' div 2 = 1"
  apply (simp add: to_multiscale_x4 from_dict_def level_array_def dataset_of_def chunked_def)
  apply (simp add: extent_def half_x4_def image_x4_def)
  done

text \<open>C7: the claim is that an integer factor reduces the spatial axes only and a mapping the axes
  it names only, every other axis keeping its extent for that transition. Each transition
  coarsens the input image, not the level before it (the loop never assigns
  \<^verbatim>\<open>current_input\<close>), so an axis that a transition leaves alone goes back to its extent in the
  input. On an image with 2 channels and 4 cells along \<^verbatim>\<open>x\<close>, with the factor 2 and then the
  mapping of \<^verbatim>\<open>c\<close> to 2, level 1 has the extents 2 and 2, and level 2 has the extents 1 and 4:
  the second transition does not name \<^verbatim>\<open>x\<close>, and its extent changes from 2 to 4.\<close>

theorem unnamed_axis_follows_input:
  "\<exists>t a1 a2. to_multiscale image_cx [IntFactor 2, DictFactor [(''c'', 2)]] None None = Inr t \<and>
     level_array t 1 ''image'' = Some a1 \<and> level_array t 2 ''image'' = Some a2 \<and>
     extent (da_sizes a1) ''c'' = 2 \<and> extent (da_sizes a1) ''x'' = 2 \<and>
     extent (da_sizes a2) ''c'' = 1 \<and> extent (da_sizes a2) ''x'' = 4"
proof -
  let ?sfs = "[IntFactor 2, DictFactor [(''c'', 2)]]"
  from valid_cx obtain t where t: "to_multiscale image_cx ?sfs None None = Inr t"
    by (simp add: to_multiscale_eq Let_def)
  have n: "da_name image_cx = ''image''"
    by (simp add: image_cx_def)
  from level_array_succ[OF t, of 0] sizes_cx obtain a1 where
    a1: "level_array t 1 ''image'' = Some a1 \<and> da_sizes a1 = [(''c'', 2), (''x'', 2)]"
    by (auto simp: n chunked_def)
  from level_array_succ[OF t, of 1] sizes_cx obtain a2 where
    a2: "level_array t 2 ''image'' = Some a2 \<and> da_sizes a2 = [(''c'', 1), (''x'', 4)]"
    by (auto simp: n chunked_def numeral_2_eq_2)
  from a1 a2 show ?thesis
    by (intro exI[of _ t] exI[of _ a1] exI[of _ a2]) (simp add: t extent_def)
qed

text \<open>C9: on an image none of whose dimensions is \<^verbatim>\<open>x\<close>, \<^verbatim>\<open>y\<close> or \<^verbatim>\<open>z\<close>, with integer scale
  factors only, a tree that \<^verbatim>\<open>to_multiscale\<close> returns has one level per factor and level 0, and
  the array of every level has the data values of the input; and the call does return when the
  name of the image is not the name of one of its coordinates and the chunks are the default, a
  positive block length or a mapping from dimensions to positive block lengths.\<close>

theorem no_spatial_dims_identity:
  assumes "set (da_dims img) \<inter> spatial_dims = {}"
    and "\<forall>sf \<in> set sfs. \<exists>f. sf = IntFactor f"
  shows "(\<forall>t. to_multiscale img sfs m c = Inr t \<longrightarrow>
            length (msi_children t) = length sfs + 1 \<and>
            (\<forall>k \<le> length sfs. \<exists>a. level_array t k (da_name img) = Some a \<and>
               da_data a = da_data img)) \<and>
         (da_name img \<notin> set (map fst (da_coords img)) \<and> plain_chunks c img \<longrightarrow>
            (\<exists>t. to_multiscale img sfs m c = Inr t))"
proof -
  let ?ch = "case c of None \<Rightarrow> default_chunks img | Some c' \<Rightarrow> c'"
  let ?t = "from_dict ''multiscales''
      ((''multiscales/0'', dataset_of (da_name img) (chunked ?ch img)) # levels_from img img ?ch 0 sfs)"
  have r: "resolve_dim img sf = []" if "sf \<in> set sfs" for sf
  proof -
    from assms(2) that obtain f where "sf = IntFactor f" by auto
    then show ?thesis by (simp add: resolve_no_spatial[OF assms(1)])
  qed
  then have "list_all (\<lambda>sf. \<not> bad_windows (resolve_dim img sf) img) sfs"
    by (simp add: list_all_iff bad_windows_def)
  with plain_returns[of c img sfs m]
  have ret: "da_name img \<notin> set (map fst (da_coords img)) \<and> plain_chunks c img \<longrightarrow>
            (\<exists>t. to_multiscale img sfs m c = Inr t)"
    by simp
  have n: "length (msi_children ?t) = length sfs + 1"
    by (simp add: from_dict_def length_levels_from)
  have l: "\<exists>a. level_array ?t k (da_name img) = Some a \<and> da_data a = da_data img"
    if "k \<le> length sfs" for k
  proof (cases k)
    case 0
    then show ?thesis by (simp add: from_dict_def level_array_def dataset_of_def chunked_def)
  next
    case (Suc j)
    with that have j: "j < length sfs" by simp
    then have e: "resolve_dim img (sfs ! j) = []" using r by simp
    have "level_array ?t k (da_name img) =
        map_of (ds_data_vars (snd (levels_from img img ?ch 0 sfs ! j))) (da_name img)"
      using j Suc by (simp add: from_dict_def level_array_def length_levels_from)
    also have "\<dots> = Some ((chunked ?ch (coarsened (resolve_dim img (sfs ! j)) img))\<lparr>da_name := da_name img\<rparr>)"
      using j by (rule levels_from_data)
    finally show ?thesis by (simp add: e coarsened_nil chunked_def)
  qed
  have a: "\<forall>k \<le> length sfs. \<exists>a. level_array ?t k (da_name img) = Some a \<and> da_data a = da_data img"
    using l by (intro allI impI)
  have v: "\<forall>t. to_multiscale img sfs m c = Inr t \<longrightarrow>
            length (msi_children t) = length sfs + 1 \<and>
            (\<forall>k \<le> length sfs. \<exists>a. level_array t k (da_name img) = Some a \<and>
               da_data a = da_data img)"
  proof (intro allI impI)
    fix t assume "to_multiscale img sfs m c = Inr t"
    then have "t = ?t" by (simp add: to_multiscale_eq Let_def split: if_splits)
    with n a show "length (msi_children t) = length sfs + 1 \<and>
            (\<forall>k \<le> length sfs. \<exists>a. level_array t k (da_name img) = Some a \<and>
               da_data a = da_data img)"
      by (simp only: simp_thms)
  qed
  from v ret show ?thesis by (intro conjI)
qed

text \<open>The statement of C9 at an image with a channel dimension only and the factors 2 and 3.\<close>

theorem no_spatial_dims_identity_witness:
  "\<exists>t a. to_multiscale image_c2 [IntFactor 2, IntFactor 3] None None = Inr t \<and>
     length (msi_children t) = 3 \<and> level_array t 2 ''image'' = Some a \<and>
     da_data a = Axis [Cell 1, Cell 2]"
proof -
  have "set (da_dims image_c2) \<inter> spatial_dims = {}"
    by (simp add: image_c2_def da_dims_def spatial_dims_def)
  note th = no_spatial_dims_identity[OF this, where sfs = "[IntFactor 2, IntFactor 3]"
      and m = None and c = None]
  have f: "\<forall>sf \<in> set [IntFactor 2, IntFactor 3]. \<exists>f. sf = IntFactor f"
    by simp
  have "da_name image_c2 \<notin> set (map fst (da_coords image_c2)) \<and> plain_chunks None image_c2"
    by (simp add: image_c2_def plain_chunks_def)
  with th[OF f] obtain t where t: "to_multiscale image_c2 [IntFactor 2, IntFactor 3] None None = Inr t"
    by blast
  with th[OF f] have n: "length (msi_children t) = length [IntFactor 2, IntFactor 3] + 1"
    and a: "\<forall>k \<le> length [IntFactor 2, IntFactor 3].
        \<exists>a. level_array t k (da_name image_c2) = Some a \<and> da_data a = da_data image_c2"
    by blast+
  from a have "\<exists>a. level_array t 2 (da_name image_c2) = Some a \<and> da_data a = da_data image_c2"
    by simp
  then obtain a where "level_array t 2 (da_name image_c2) = Some a" and "da_data a = da_data image_c2"
    by blast
  then have "level_array t 2 ''image'' = Some a \<and> da_data a = Axis [Cell 1, Cell 2]"
    by (simp add: image_c2_def)
  with n show ?thesis
    by (intro exI[of _ t] exI[of _ a]) (simp add: t)
qed

section \<open>Claims about \<^verbatim>\<open>to_zarr\<close>\<close>

text \<open>C6: for the \<open>i\<close>-th dimension of a level dataset, with coordinate values \<open>c\<close>, the scale entry is
  \<open>c ! 1 - c ! 0\<close> when there are at least two values and \<open>1\<close> when there is exactly one; the
  translation entry is \<open>c ! 0\<close> when there is at least one value and \<open>0\<close> when there is none.\<close>

theorem derived_scale_translation:
  "i < length (ds_dims (node_ds child)) \<Longrightarrow>
   c = co_data (coords_getitem (node_ds child) (ds_dims (node_ds child) ! i)) \<Longrightarrow>
   (\<exists>s t. coordinateTransformations (ngff_dataset_of name child) = [Scale s, Translation t] \<and>
      length s = length (ds_dims (node_ds child)) \<and>
      length t = length (ds_dims (node_ds child)) \<and>
      (2 \<le> length c \<longrightarrow> s ! i = c ! 1 - c ! 0) \<and>
      (length c = 1 \<longrightarrow> s ! i = 1) \<and>
      (1 \<le> length c \<longrightarrow> t ! i = c ! 0) \<and>
      (length c = 0 \<longrightarrow> t ! i = 0))"
  by (simp add: ngff_dataset_of_def Let_def transforms_eq)

text \<open>The statement of C6 at the level built from the four-cell image, whose coordinates are 0, 1, 2, 3.\<close>

theorem derived_scale_translation_witness:
  "\<exists>s t. coordinateTransformations
       (ngff_dataset_of ''image'' \<lparr>node_name = ''0'', node_ds = dataset_of ''image'' image_x4\<rparr>)
       = [Scale s, Translation t] \<and> s ! 0 = 1 \<and> t ! 0 = 0"
proof -
  let ?child = "\<lparr>node_name = ''0'', node_ds = dataset_of ''image'' image_x4\<rparr>"
  have i: "0 < length (ds_dims (node_ds ?child))"
    by (simp add: ds_dims_def dataset_of_def image_x4_def)
  have c: "co_data (coords_getitem (node_ds ?child) (ds_dims (node_ds ?child) ! 0)) = [0, 1, 2, 3]"
    by (simp add: ds_dims_def dataset_of_def image_x4_def coords_getitem_def)
  from derived_scale_translation[OF i c[symmetric], of "''image''"] show ?thesis
    by auto
qed

text \<open>C10: on a tree with at least one level, \<^verbatim>\<open>to_zarr\<close> hands to the store writer a tree whose root
  attributes are already the new metadata document, and the tree it leaves behind has these
  attributes whatever the writer returns, an error included.\<close>

theorem attrs_replaced_before_write:
  "msi_children self \<noteq> [] \<Longrightarrow>
   to_zarr w self store mode encoding kwargs = (self', outcome) \<Longrightarrow>
   ds_attrs (msi_ds self') = [(''multiscales'', AttrMultiscales (ngff_multiscales self))] \<and>
   outcome = w self' store kwargs \<and>
   msi_children self' = msi_children self"
  by (auto simp: to_zarr_def ngff_multiscales_def Let_def split: list.splits)

text \<open>The statement of C10 with a writer that always raises: the old attribute is gone.\<close>

theorem attrs_replaced_before_write_witness:
  "\<exists>self'. to_zarr failing_writer tree_x4 ''store'' (PyStr ''w'') PyNone [] = (self', Inl ValueError) \<and>
     ds_attrs (msi_ds self') = [(''multiscales'', AttrMultiscales (ngff_multiscales tree_x4))] \<and>
     ds_attrs (msi_ds self') \<noteq> ds_attrs (msi_ds tree_x4)"
proof -
  have ne: "msi_children tree_x4 \<noteq> []" by (simp add: tree_x4_def)
  obtain self' outcome where
    r: "to_zarr failing_writer tree_x4 ''store'' (PyStr ''w'') PyNone [] = (self', outcome)"
    by (cases "to_zarr failing_writer tree_x4 ''store'' (PyStr ''w'') PyNone []") blast
  from attrs_replaced_before_write[OF ne r]
  have a: "ds_attrs (msi_ds self') = [(''multiscales'', AttrMultiscales (ngff_multiscales tree_x4))]"
    and o: "outcome = failing_writer self' ''store'' []" by simp_all
  from o have "outcome = Inl ValueError" by (simp add: failing_writer_def)
  moreover from a have "ds_attrs (msi_ds self') \<noteq> ds_attrs (msi_ds tree_x4)"
    by (simp add: tree_x4_def)
  ultimately show ?thesis using r a by blast
qed

text \<open>C8: when a tree returned by \<^verbatim>\<open>to_multiscale\<close> for \<open>N\<close> scale factors is written, the root
  attributes hold one multiscale record, named after the image, whose datasets list has
  \<open>N + 1\<close> entries with the paths \<^verbatim>\<open>0/<name>\<close> to \<^verbatim>\<open>N/<name>\<close> in this order.\<close>

theorem metadata_paths:
  assumes "to_multiscale img sfs m c = Inr t"
    and "to_zarr w t store mode encoding kwargs = (t', outcome)"
  shows "\<exists>r. ds_attrs (msi_ds t') = [(''multiscales'', AttrMultiscales [r])] \<and>
     ms_name r = da_name img \<and>
     length (ms_datasets r) = length sfs + 1 \<and>
     map ngff_path (ms_datasets r) =
       map (\<lambda>k. str_nat k @ ''/'' @ da_name img) [0..<length sfs + 1]"
proof -
  let ?ch = "case c of None \<Rightarrow> default_chunks img | Some c' \<Rightarrow> c'"
  from assms(1) have t: "t = from_dict ''multiscales''
      ((''multiscales/0'', dataset_of (da_name img) (chunked ?ch img)) # levels_from img img ?ch 0 sfs)"
    by (simp add: to_multiscale_eq Let_def split: if_splits)
  obtain child0 rest where ch: "msi_children t = child0 # rest"
    and v: "map fst (ds_data_vars (node_ds child0)) = [da_name img]"
    by (simp add: t from_dict_def dataset_of_def)
  have "ds_attrs (msi_ds t') =
      [(''multiscales'', AttrMultiscales [multiscale_of (msi_children t) child0 (da_name img)])]"
    using assms(2) ch v by (auto simp: to_zarr_def Let_def)
  moreover have "map ngff_path (ms_datasets (multiscale_of (msi_children t) child0 (da_name img))) =
      map (\<lambda>k. str_nat k @ ''/'' @ da_name img) [0..<length sfs + 1]"
  proof -
    have "map ngff_path (ms_datasets (multiscale_of (msi_children t) child0 (da_name img))) =
        map (\<lambda>n. n @ ''/'' @ da_name img) (map node_name (msi_children t))"
      by (simp add: multiscale_of_def ngff_dataset_of_def Let_def)
    also have "\<dots> = map (\<lambda>n. n @ ''/'' @ da_name img) (map str_nat [0..<length sfs + 1])"
      by (simp only: children_names[OF assms(1)])
    also have "\<dots> = map (\<lambda>k. str_nat k @ ''/'' @ da_name img) [0..<length sfs + 1]"
      by (simp add: comp_def del: upt_Suc)
    finally show ?thesis .
  qed
  moreover have "length (ms_datasets (multiscale_of (msi_children t) child0 (da_name img))) = length sfs + 1"
    using arg_cong[OF children_names[OF assms(1)], of length] by (simp add: multiscale_of_def)
  ultimately show ?thesis by (simp add: multiscale_of_def)
qed

text \<open>The statement of C8 at the four-cell image with two halvings: three paths.\<close>

theorem metadata_paths_witness:
  "\<exists>t t' outcome r. to_multiscale image_x4 [IntFactor 2, IntFactor 2] None None = Inr t \<and>
     to_zarr recording_writer t ''store'' (PyStr ''w'') PyNone [] = (t', outcome) \<and>
     ds_attrs (msi_ds t') = [(''multiscales'', AttrMultiscales [r])] \<and>
     map ngff_path (ms_datasets r) = [''0/image'', ''1/image'', ''2/image'']"
proof -
  let ?sfs = "[IntFactor 2, IntFactor 2]"
  obtain t where t: "to_multiscale image_x4 ?sfs None None = Inr t"
    by (simp add: to_multiscale_x4)
  obtain t' outcome where z: "to_zarr recording_writer t ''store'' (PyStr ''w'') PyNone [] = (t', outcome)"
    by (cases "to_zarr recording_writer t ''store'' (PyStr ''w'') PyNone []") auto
  from metadata_paths[OF t z] obtain r where
    r: "ds_attrs (msi_ds t') = [(''multiscales'', AttrMultiscales [r])]"
    and p: "map ngff_path (ms_datasets r) =
       map (\<lambda>k. str_nat k @ ''/'' @ da_name image_x4) [0..<length ?sfs + 1]"
    by blast
  have u: "[0..<length ?sfs + 1] = [0, Suc 0, 2]"
    by (simp add: upt_rec)
  have s1: "str_nat (Suc 0) = ''1''" by (simp add: str_nat.simps[of "Suc 0"] digits_def)
  have s2: "str_nat 2 = ''2''" by (simp add: str_nat.simps[of 2] digits_def)
  have q: "map ngff_path (ms_datasets r) = [''0/image'', ''1/image'', ''2/image'']"
    unfolding p u by (simp add: str_nat_0 s1 s2 image_x4_def)
  show ?thesis
    by (rule exI[of _ t], rule exI[of _ t'], rule exI[of _ outcome], rule exI[of _ r])
      (simp add: t z r q)
qed

text \<open>C2: the claim is that \<^verbatim>\<open>mode\<close> and \<^verbatim>\<open>encoding\<close> reach the store writer. The call
  \<^verbatim>\<open>super().to_zarr(store, **kwargs)\<close> passes neither: the result of \<^verbatim>\<open>to_zarr\<close> is the same
  for every \<^verbatim>\<open>mode\<close> and \<^verbatim>\<open>encoding\<close>, and a writer that records its arguments, called with
  mode \<^verbatim>\<open>a\<close> and an encoding, has received the store and no keyword argument.\<close>

theorem write_options_not_forwarded:
  "to_zarr w self store mode encoding kwargs = to_zarr w self store (PyStr ''w'') PyNone kwargs \<and>
   snd (to_zarr recording_writer tree_x4 ''store'' (PyStr ''a'')
          (PyDict [(''0/image'', PyDict [(''dtype'', PyStr ''int16'')])]) []) =
     Inr (''store'', [])"
  by (simp add: to_zarr_def recording_writer_def tree_x4_def Let_def)

end
